theory Spec2Isabelle
  imports Main "HOL-Library.Word"
begin

section \<open>Errors\<close>

text \<open>
  \<open>awserr.Error\<close> is an interface of the AWS SDK; the clients read it through its
  methods \<open>Code()\<close>, \<open>Message()\<close> and \<open>Error()\<close> only, so a value of it is the
  record of what the three methods return.
\<close>

record awserr =
  Code :: string
  Message :: string
  Error :: string

text \<open>
  The Go \<open>error\<close> values that the two clients see or build. A nil error is \<open>None\<close> of
  \<open>error option\<close>.
  \<^item> \<open>AwsError\<close>: an error for which the type assertion \<open>err.(awserr.Error)\<close> succeeds;
  \<^item> \<open>OtherError\<close>: any other error coming from the SDK or from \<open>GetSession\<close>;
  \<^item> \<open>ECSTaskNotFoundError\<close>: what \<open>cocoa.NewECSTaskNotFoundError(arn)\<close> builds (the typed
    not-found error, which carries the identifier);
  \<^item> \<open>ErrorsNew\<close>: \<open>errors.New(text)\<close>;
  \<^item> \<open>Wrapped\<close>: \<open>errors.Wrap(err, text)\<close> of a non-nil \<open>err\<close>;
  \<^item> \<open>CatcherErrors\<close>: what \<open>Resolve()\<close> of a grip catcher returns for the errors it holds;
  \<^item> \<open>ContextCancelled\<close> and \<open>RetriesExhausted\<close>: the two errors of the retry executor
    itself, as sections 4.1 and 7 of the specification name them (cancellation, and the last
    observed error wrapped once the budget is used up).
\<close>

datatype error =
    AwsError awserr
  | OtherError string
  | ECSTaskNotFoundError string
  | ErrorsNew string
  | Wrapped error string
  | CatcherErrors "error list"
  | ContextCancelled
  | RetriesExhausted "error option"

text \<open>\<open>errors.Wrap\<close> returns nil for a nil error.\<close>

definition errors_Wrap :: "error option \<Rightarrow> string \<Rightarrow> error option" where
  "errors_Wrap err msg = (case err of None \<Rightarrow> None | Some e \<Rightarrow> Some (Wrapped e msg))"

section \<open>Helpers of the libraries\<close>

text \<open>\<open>utility.FromStringPtr\<close> and \<open>utility.FromInt64Ptr\<close>: the zero value for nil.\<close>

definition FromStringPtr :: "string option \<Rightarrow> string" where
  "FromStringPtr p = (case p of None \<Rightarrow> [] | Some s \<Rightarrow> s)"

definition FromInt64Ptr :: "64 word option \<Rightarrow> 64 word" where
  "FromInt64Ptr p = (case p of None \<Rightarrow> 0 | Some v \<Rightarrow> v)"

text \<open>\<open>utility.StringSliceContains(slice, item)\<close>.\<close>

fun StringSliceContains :: "string list \<Rightarrow> string \<Rightarrow> bool" where
  "StringSliceContains [] item = False"
| "StringSliceContains (s # ss) item = (if s = item then True else StringSliceContains ss item)"

text \<open>\<open>strings.HasPrefix\<close> and \<open>strings.Contains\<close>, on the bytes of the strings.\<close>

fun HasPrefix :: "string \<Rightarrow> string \<Rightarrow> bool" where
  "HasPrefix s [] = True"
| "HasPrefix [] (p # ps) = False"
| "HasPrefix (c # cs) (p # ps) = (if c = p then HasPrefix cs ps else False)"

fun Contains :: "string \<Rightarrow> string \<Rightarrow> bool" where
  "Contains [] substr = HasPrefix [] substr"
| "Contains (c # cs) substr = (if HasPrefix (c # cs) substr then True else Contains cs substr)"

text \<open>\<open>strings.Join(elems, sep)\<close>.\<close>

fun Join :: "string list \<Rightarrow> string \<Rightarrow> string" where
  "Join [] sep = []"
| "Join [e] sep = e"
| "Join (e # e' # es) sep = e @ sep @ Join (e' # es) sep"

section \<open>Error codes of the SDK\<close>

text \<open>
  The error-code constants belong to the AWS SDK (packages \<open>ecs\<close>, \<open>secretsmanager\<close> and
  \<open>request\<close>), not to this repository: the classifiers take them as a parameter. Only the
  access-denied code of the Secrets Manager table is a literal of the source.
\<close>

record sdk_codes =
  ecs_ErrCodeAccessDeniedException :: string
  ecs_ErrCodeClientException :: string
  ecs_ErrCodeInvalidParameterException :: string
  ecs_ErrCodeClusterNotFoundException :: string
  secretsmanager_ErrCodeInvalidParameterException :: string
  secretsmanager_ErrCodeInvalidRequestException :: string
  secretsmanager_ErrCodeResourceNotFoundException :: string
  secretsmanager_ErrCodeResourceExistsException :: string
  request_InvalidParameterErrCode :: string
  request_ParamRequiredErrCode :: string

text \<open>The values the constants have in aws-sdk-go, for the concrete instances below.\<close>

definition aws_sdk_codes :: sdk_codes where
  "aws_sdk_codes = \<lparr>
     ecs_ErrCodeAccessDeniedException = ''AccessDeniedException'',
     ecs_ErrCodeClientException = ''ClientException'',
     ecs_ErrCodeInvalidParameterException = ''InvalidParameterException'',
     ecs_ErrCodeClusterNotFoundException = ''ClusterNotFoundException'',
     secretsmanager_ErrCodeInvalidParameterException = ''InvalidParameterException'',
     secretsmanager_ErrCodeInvalidRequestException = ''InvalidRequestException'',
     secretsmanager_ErrCodeResourceNotFoundException = ''ResourceNotFoundException'',
     secretsmanager_ErrCodeResourceExistsException = ''ResourceExistsException'',
     request_InvalidParameterErrCode = ''InvalidParameter'',
     request_ParamRequiredErrCode = ''ParamRequiredError'' \<rparr>"

section \<open>The error classifiers\<close>

text \<open>
  \<open>isNonRetryableErrorCode\<close> of \<open>ecs.BasicClient\<close>: a \<open>switch\<close> on the code, one case with
  six constants, compared in the order they are written.
\<close>

definition isNonRetryableErrorCode_ecs :: "sdk_codes \<Rightarrow> string \<Rightarrow> bool" where
  "isNonRetryableErrorCode_ecs K code =
     (if code = ecs_ErrCodeAccessDeniedException K then True
      else if code = ecs_ErrCodeClientException K then True
      else if code = ecs_ErrCodeInvalidParameterException K then True
      else if code = ecs_ErrCodeClusterNotFoundException K then True
      else if code = request_InvalidParameterErrCode K then True
      else if code = request_ParamRequiredErrCode K then True
      else False)"

text \<open>\<open>isNonRetryableErrorCode\<close> of \<open>secret.BasicSecretsManagerClient\<close>: seven constants.\<close>

definition isNonRetryableErrorCode_sm :: "sdk_codes \<Rightarrow> string \<Rightarrow> bool" where
  "isNonRetryableErrorCode_sm K code =
     (if code = ''AccessDeniedException'' then True
      else if code = secretsmanager_ErrCodeInvalidParameterException K then True
      else if code = secretsmanager_ErrCodeInvalidRequestException K then True
      else if code = secretsmanager_ErrCodeResourceNotFoundException K then True
      else if code = secretsmanager_ErrCodeResourceExistsException K then True
      else if code = request_InvalidParameterErrCode K then True
      else if code = request_ParamRequiredErrCode K then True
      else False)"

section \<open>The failure translator\<close>

text \<open>\<open>ecs.Failure\<close> of the SDK: three optional strings (\<open>*string\<close>, nil is \<open>None\<close>).\<close>

record Failure =
  Arn :: "string option"
  Detail :: "string option"
  Reason :: "string option"

definition ReasonTaskMissing :: string where
  "ReasonTaskMissing = ''MISSING''"

definition isTaskNotFoundFailure :: "Failure \<Rightarrow> bool" where
  "isTaskNotFoundFailure f = (Arn f \<noteq> None \<and> FromStringPtr (Reason f) = ReasonTaskMissing)"

text \<open>
  \<open>ConvertFailureToError(f *ecs.Failure) error\<close>. The three \<open>fmt.Sprintf\<close> calls are
  written out as concatenations; \<open>CHR 0x27\<close> is the single quote around the task's ARN.
\<close>

definition ConvertFailureToError :: "Failure option \<Rightarrow> error option" where
  "ConvertFailureToError fp =
     (case fp of
        None \<Rightarrow> None
      | Some f \<Rightarrow>
          if isTaskNotFoundFailure f then Some (ECSTaskNotFoundError (FromStringPtr (Arn f)))
          else
            let arn = FromStringPtr (Arn f);
                parts1 = (if arn \<noteq> [] then [] @ [''task '' @ [CHR 0x27] @ arn @ [CHR 0x27]] else []);
                reason = FromStringPtr (Reason f);
                parts2 = (if reason \<noteq> [] then parts1 @ [''(reason) '' @ reason] else parts1);
                detail = FromStringPtr (Detail f);
                parts3 = (if detail \<noteq> [] then parts2 @ [''(detail) '' @ detail] else parts2)
            in if length parts3 = 0
               then Some (ErrorsNew ''ECS failure did not contain any additional failure information'')
               else Some (ErrorsNew (Join parts3 '': '')))"



section \<open>The error catcher\<close>

text \<open>
  \<open>grip.NewBasicCatcher()\<close>: a collection of errors. \<open>Add\<close> ignores a nil error,
  \<open>HasErrors\<close> says whether one was added, \<open>Resolve\<close> is nil for an empty catcher and one
  error made of the collected ones otherwise.
\<close>

type_synonym catcher = "error list"

definition NewBasicCatcher :: catcher where
  "NewBasicCatcher = []"

definition catcher_Add :: "catcher \<Rightarrow> error option \<Rightarrow> catcher" where
  "catcher_Add c e = (case e of None \<Rightarrow> c | Some x \<Rightarrow> c @ [x])"

definition catcher_HasErrors :: "catcher \<Rightarrow> bool" where
  "catcher_HasErrors c = (length c > 0)"

definition catcher_Resolve :: "catcher \<Rightarrow> error option" where
  "catcher_Resolve c = (if catcher_HasErrors c then Some (CatcherErrors c) else None)"

section \<open>The closures handed to the retry executor\<close>

text \<open>The type assertion \<open>awsErr, ok := err.(awserr.Error)\<close>: \<open>Some awsErr\<close> when \<open>ok\<close>.\<close>

fun as_awserr :: "error option \<Rightarrow> awserr option" where
  "as_awserr (Some (AwsError a)) = Some a"
| "as_awserr e = None"

text \<open>
  What every operation but \<open>RunTask\<close> and \<open>StopTask\<close> decides from the error of the remote
  call (logging left out): a listed code stops, anything else, also no error, says retry.
\<close>

definition decide_ecs :: "sdk_codes \<Rightarrow> error option \<Rightarrow> bool \<times> error option" where
  "decide_ecs K err =
     (case as_awserr err of
        Some awsErr \<Rightarrow> if isNonRetryableErrorCode_ecs K (Code awsErr) then (False, err) else (True, err)
      | None \<Rightarrow> (True, err))"

definition decide_sm :: "sdk_codes \<Rightarrow> error option \<Rightarrow> bool \<times> error option" where
  "decide_sm K err =
     (case as_awserr err of
        Some awsErr \<Rightarrow> if isNonRetryableErrorCode_sm K (Code awsErr) then (False, err) else (True, err)
      | None \<Rightarrow> (True, err))"

text \<open>
  \<open>isTaskNotFoundError(err)\<close>, and the decision of the closure of \<open>StopTask\<close>, whose input
  carries the task identifier.
\<close>

record StopTaskInput =
  Task :: "string option"

definition isTaskNotFoundError :: "sdk_codes \<Rightarrow> error option \<Rightarrow> bool" where
  "isTaskNotFoundError K err =
     (case as_awserr err of
        None \<Rightarrow> False
      | Some awsErr \<Rightarrow> Code awsErr = ecs_ErrCodeInvalidParameterException K
          \<and> Contains (Message awsErr) ''The referenced task was not found'')"

definition decide_StopTask :: "sdk_codes \<Rightarrow> StopTaskInput \<Rightarrow> error option \<Rightarrow> bool \<times> error option" where
  "decide_StopTask K inp err =
     (case as_awserr err of
        Some awsErr \<Rightarrow>
          if isTaskNotFoundError K (Some (AwsError awsErr))
          then (False, Some (ECSTaskNotFoundError (FromStringPtr (Task inp))))
          else if isNonRetryableErrorCode_ecs K (Code awsErr) then (False, err)
          else (True, err)
      | None \<Rightarrow> (True, err))"

text \<open>
  \<open>RunTask\<close>: the input's count (\<open>*int64\<close>), the output's launched tasks and failures
  (\<open>[]*ecs.Failure\<close>, entries may be nil), the loop over the failures and the decision of
  the closure. Only the number of launched tasks is read, so their type is left open.
\<close>

record RunTaskInput =
  Count :: "64 word option"

record 't RunTaskOutput =
  Failures :: "Failure option list"
  Tasks :: "'t list"

fun RunTask_failures :: "Failure option list \<Rightarrow> catcher \<Rightarrow> catcher" where
  "RunTask_failures [] catcher = catcher"
| "RunTask_failures (f # fs) catcher =
     (case f of
        None \<Rightarrow> RunTask_failures fs catcher
      | Some f' \<Rightarrow>
          if StringSliceContains [''RESOURCE:CPU'', ''RESOURCE:MEMORY''] (FromStringPtr (Reason f'))
          then RunTask_failures fs (catcher_Add catcher (ConvertFailureToError f))
          else RunTask_failures fs catcher)"

definition decide_RunTask ::
  "sdk_codes \<Rightarrow> RunTaskInput \<Rightarrow> 't RunTaskOutput \<Rightarrow> error option \<Rightarrow> bool \<times> error option" where
  "decide_RunTask K inp out err =
     (if (case as_awserr err of
            Some awsErr \<Rightarrow> Contains (Error awsErr) ''provisioning capacity limit exceeded''
          | None \<Rightarrow> False)
      then (True, err)
      else if (case as_awserr err of
                 Some awsErr \<Rightarrow> isNonRetryableErrorCode_ecs K (Code awsErr)
               | None \<Rightarrow> False)
      then (False, err)
      else if err \<noteq> None then (True, err)
      else if FromInt64Ptr (Count inp) = 1 \<and> length (Tasks out) = 0 \<and> length (Failures out) > 0
      then (let catcher = RunTask_failures (Failures out) NewBasicCatcher
            in (catcher_HasErrors catcher,
                errors_Wrap (catcher_Resolve catcher) ''cluster has insufficient resources''))
      else (False, None))"

section \<open>The retry executor\<close>

text \<open>
  Modelled from the spec: the policy of the executor (\<open>utility.RetryOptions\<close>, not under
  src; \<open>RetryPolicy\<close> in section 3 of the specification). Only the attempt budget, a count,
  decides what is returned; the backoff durations and the jitter decide how long the executor
  sleeps, which is not modelled.
\<close>

record RetryOptions =
  MaxAttempts :: nat

text \<open>
  Modelled from the spec: the cancellation context, seen from the executor. \<open>ctx k\<close> says
  that the context is cancelled during the sleep that follows the \<open>k\<close>-th attempt.
\<close>

type_synonym go_context = "nat \<Rightarrow> bool"

text \<open>
  An attempt function runs on a state (the variables its closure captures and the remote
  service) and returns the retry flag and the error of this attempt.
\<close>

type_synonym 's attempt = "'s \<Rightarrow> (bool \<times> error option) \<times> 's"

text \<open>
  Modelled from the spec: \<open>utility.Retry(ctx, attemptFn, opts)\<close>, the retry executor, which
  the clients import from the library \<open>github.com/evergreen-ci/utility\<close> and which is not
  under src. Section 4.1 of the specification: the executor runs the attempt while the
  attempt asks for a retry and the attempt budget and the context allow it; between two
  attempts it sleeps, and a context cancelled during the sleep ends the run with the
  cancellation error; an attempt that reports no retry ends the run, with no error or with
  its error as it is; a used-up budget ends the run with the last observed error wrapped.
  The call sites fix the signature: the attempt returns the flag and an error, the result
  travels in a variable that the closure captures, and \<open>Retry\<close> returns an error only.
  An attempt without an error ends the run as a success whatever its flag is: every closure
  of the clients returns \<open>true, err\<close> after a successful remote call.
  \<open>Retry_loop ctx attemptFn left made lastErr s\<close>: \<open>left\<close> attempts remain in the budget,
  \<open>made\<close> attempts were made, \<open>lastErr\<close> is the error of the latest one. The result holds
  the returned error, the number of attempts made and the final state.
\<close>

fun Retry_loop ::
  "go_context \<Rightarrow> 's attempt \<Rightarrow> nat \<Rightarrow> nat \<Rightarrow> error option \<Rightarrow> 's \<Rightarrow> error option \<times> nat \<times> 's" where
  "Retry_loop ctx attemptFn 0 made lastErr s = (Some (RetriesExhausted lastErr), made, s)"
| "Retry_loop ctx attemptFn (Suc left) made lastErr s =
     (if 0 < made \<and> ctx made then (Some ContextCancelled, made, s)
      else (case attemptFn s of
              ((shouldRetry, e), s') \<Rightarrow>
                if e = None then (None, Suc made, s')
                else if \<not> shouldRetry then (e, Suc made, s')
                else Retry_loop ctx attemptFn left (Suc made) e s'))"

text \<open>
  Modelled from the spec: the entry point \<open>utility.Retry\<close> of the executor (not under src),
  which starts the loop with the whole budget of the policy, no attempt made and no error
  observed.
\<close>

definition Retry ::
  "go_context \<Rightarrow> 's attempt \<Rightarrow> RetryOptions \<Rightarrow> 's \<Rightarrow> error option \<times> nat \<times> 's" where
  "Retry ctx attemptFn opts s = Retry_loop ctx attemptFn (MaxAttempts opts) 0 None s"

text \<open>The state after the first \<open>n\<close> invocations of an attempt function.\<close>

fun after_attempts :: "'s attempt \<Rightarrow> nat \<Rightarrow> 's \<Rightarrow> 's" where
  "after_attempts attemptFn 0 s = s"
| "after_attempts attemptFn (Suc n) s = snd (attemptFn (after_attempts attemptFn n s))"

section \<open>The operations\<close>

text \<open>
  The remote service is an external collaborator: \<open>service k\<close> is what the SDK call returns
  when it is made for the \<open>k\<close>-th time (counted from 0), an output object (the SDK
  allocates one for every call, also for a failed one) and an error (nil is \<open>None\<close>). The
  state of a closure holds the two variables it captures, \<open>out\<close> and \<open>err\<close>, and the number
  of remote calls made so far.
\<close>

type_synonym 'o service = "nat \<Rightarrow> 'o \<times> error option"

record 'o call_state =
  out_var :: "'o option"
  err_var :: "error option"
  calls :: nat

text \<open>
  One run of a closure: the remote call, the assignment \<open>out, err = ...\<close>, then the
  decision of the operation on the output and the error.
\<close>

definition remote_attempt ::
  "('o \<Rightarrow> error option \<Rightarrow> bool \<times> error option) \<Rightarrow> 'o service \<Rightarrow> 'o call_state attempt" where
  "remote_attempt decide service st =
     (case service (calls st) of
        (out, err) \<Rightarrow>
          (decide out err, \<lparr>out_var = Some out, err_var = err, calls = Suc (calls st)\<rparr>))"

text \<open>What an operation leaves behind: the client, the remote calls made, the two results.\<close>

record ('c, 'o) outcome =
  client :: 'c
  attempts :: nat
  ret_out :: "'o option"
  ret_err :: "error option"

text \<open>
  The part of an operation after \<open>setup\<close>: the two variables start as nil, \<open>Retry\<close> runs
  the closure, and the operation returns \<open>nil, err\<close> or \<open>out, nil\<close>.
\<close>

definition retry_call ::
  "go_context \<Rightarrow> RetryOptions \<Rightarrow> 'o call_state attempt \<Rightarrow> 'c \<Rightarrow> ('c, 'o) outcome" where
  "retry_call ctx opts closure c =
     (case Retry ctx closure opts \<lparr>out_var = None, err_var = None, calls = 0\<rparr> of
        (Some e, n, st) \<Rightarrow> \<lparr>client = c, attempts = calls st, ret_out = None, ret_err = Some e\<rparr>
      | (None, n, st) \<Rightarrow> \<lparr>client = c, attempts = calls st, ret_out = out_var st, ret_err = None\<rparr>)"

subsection \<open>The ECS client\<close>

text \<open>
  \<open>BasicClient\<close>: the field \<open>ecs\<close> is nil or the handle \<open>ecs.New(sess)\<close>. The embedded
  \<open>awsutil.BaseClient\<close> is not under src; what its \<open>GetSession()\<close> returns when \<open>setup\<close>
  calls it, and the options of \<open>GetRetryOptions()\<close>, are parameters.
\<close>

datatype 'sess ecs_handle = ecs_New 'sess

record 'sess BasicClient =
  ecs :: "'sess ecs_handle option"

definition setup_ecs :: "error + 'sess \<Rightarrow> 'sess BasicClient \<Rightarrow> error option \<times> 'sess BasicClient" where
  "setup_ecs GetSession c =
     (if ecs c \<noteq> None then (None, c)
      else (case GetSession of
              Inl err \<Rightarrow> (errors_Wrap (Some err) ''initializing session'', c)
            | Inr sess \<Rightarrow> (None, c\<lparr>ecs := Some (ecs_New sess)\<rparr>)))"

text \<open>What all operations of the ECS client share: \<open>setup\<close> first, then the retried call.\<close>

definition ecs_operation ::
  "go_context \<Rightarrow> RetryOptions \<Rightarrow> error + 'sess \<Rightarrow> 'o call_state attempt \<Rightarrow> 'sess BasicClient
   \<Rightarrow> ('sess BasicClient, 'o) outcome" where
  "ecs_operation ctx opts GetSession closure c =
     (case setup_ecs GetSession c of
        (Some err, c') \<Rightarrow>
          \<lparr>client = c', attempts = 0, ret_out = None,
           ret_err = errors_Wrap (Some err) ''setting up client''\<rparr>
      | (None, c') \<Rightarrow> retry_call ctx opts closure c')"

definition RegisterTaskDefinition where
  "RegisterTaskDefinition K ctx opts GetSession service c =
     ecs_operation ctx opts GetSession (remote_attempt (\<lambda>out err. decide_ecs K err) service) c"

definition DescribeTaskDefinition where
  "DescribeTaskDefinition K ctx opts GetSession service c =
     ecs_operation ctx opts GetSession (remote_attempt (\<lambda>out err. decide_ecs K err) service) c"

definition ListTaskDefinitions where
  "ListTaskDefinitions K ctx opts GetSession service c =
     ecs_operation ctx opts GetSession (remote_attempt (\<lambda>out err. decide_ecs K err) service) c"

definition DeregisterTaskDefinition where
  "DeregisterTaskDefinition K ctx opts GetSession service c =
     ecs_operation ctx opts GetSession (remote_attempt (\<lambda>out err. decide_ecs K err) service) c"

definition RunTask where
  "RunTask K inp ctx opts GetSession service c =
     ecs_operation ctx opts GetSession (remote_attempt (decide_RunTask K inp) service) c"

definition DescribeTasks where
  "DescribeTasks K ctx opts GetSession service c =
     ecs_operation ctx opts GetSession (remote_attempt (\<lambda>out err. decide_ecs K err) service) c"

definition ListTasks where
  "ListTasks K ctx opts GetSession service c =
     ecs_operation ctx opts GetSession (remote_attempt (\<lambda>out err. decide_ecs K err) service) c"

definition StopTask where
  "StopTask K inp ctx opts GetSession service c =
     ecs_operation ctx opts GetSession (remote_attempt (\<lambda>out err. decide_StopTask K inp err) service) c"

definition TagResource_ecs where
  "TagResource_ecs K ctx opts GetSession service c =
     ecs_operation ctx opts GetSession (remote_attempt (\<lambda>out err. decide_ecs K err) service) c"

subsection \<open>The Secrets Manager client\<close>

datatype 'sess sm_handle = secretsmanager_New 'sess

record 'sess BasicSecretsManagerClient =
  sm :: "'sess sm_handle option"

definition setup_sm ::
  "error + 'sess \<Rightarrow> 'sess BasicSecretsManagerClient \<Rightarrow> error option \<times> 'sess BasicSecretsManagerClient" where
  "setup_sm GetSession c =
     (if sm c \<noteq> None then (None, c)
      else (case GetSession of
              Inl err \<Rightarrow> (errors_Wrap (Some err) ''initializing session'', c)
            | Inr sess \<Rightarrow> (None, c\<lparr>sm := Some (secretsmanager_New sess)\<rparr>)))"

definition sm_operation ::
  "go_context \<Rightarrow> RetryOptions \<Rightarrow> error + 'sess \<Rightarrow> 'o call_state attempt
   \<Rightarrow> 'sess BasicSecretsManagerClient \<Rightarrow> ('sess BasicSecretsManagerClient, 'o) outcome" where
  "sm_operation ctx opts GetSession closure c =
     (case setup_sm GetSession c of
        (Some err, c') \<Rightarrow>
          \<lparr>client = c', attempts = 0, ret_out = None,
           ret_err = errors_Wrap (Some err) ''setting up client''\<rparr>
      | (None, c') \<Rightarrow> retry_call ctx opts closure c')"

definition CreateSecret where
  "CreateSecret K ctx opts GetSession service c =
     sm_operation ctx opts GetSession (remote_attempt (\<lambda>out err. decide_sm K err) service) c"

definition GetSecretValue where
  "GetSecretValue K ctx opts GetSession service c =
     sm_operation ctx opts GetSession (remote_attempt (\<lambda>out err. decide_sm K err) service) c"

definition DescribeSecret where
  "DescribeSecret K ctx opts GetSession service c =
     sm_operation ctx opts GetSession (remote_attempt (\<lambda>out err. decide_sm K err) service) c"

definition ListSecrets where
  "ListSecrets K ctx opts GetSession service c =
     sm_operation ctx opts GetSession (remote_attempt (\<lambda>out err. decide_sm K err) service) c"

definition UpdateSecretValue where
  "UpdateSecretValue K ctx opts GetSession service c =
     sm_operation ctx opts GetSession (remote_attempt (\<lambda>out err. decide_sm K err) service) c"

definition TagResource_sm where
  "TagResource_sm K ctx opts GetSession service c =
     sm_operation ctx opts GetSession (remote_attempt (\<lambda>out err. decide_sm K err) service) c"

definition DeleteSecret where
  "DeleteSecret K ctx opts GetSession service c =
     sm_operation ctx opts GetSession (remote_attempt (\<lambda>out err. decide_sm K err) service) c"

section \<open>The session invariant\<close>

text \<open>
  What it means for an operation of a client, as a function of what \<open>GetSession\<close> returns
  and of the client it is called on, to be guarded by \<open>setup\<close>:
  \<^item> on a client without a handle whose session cannot be made, it returns the doubly
    wrapped error and no output, makes no remote call and leaves the client as it was;
  \<^item> on a client without a handle whose session can be made, the client it leaves holds
    the handle made from that session;
  \<^item> whenever it makes a remote call, the client it leaves holds a handle;
  \<^item> on a client that holds a handle, it leaves the client as it was.
\<close>

definition guarded_by_setup_ecs ::
  "(error + 'sess \<Rightarrow> 'sess BasicClient \<Rightarrow> ('sess BasicClient, 'o) outcome) \<Rightarrow> bool" where
  "guarded_by_setup_ecs operation =
     (\<forall>GetSession c.
        (\<forall>e. ecs c = None \<and> GetSession = Inl e \<longrightarrow>
           operation GetSession c =
             \<lparr>client = c, attempts = 0, ret_out = None,
              ret_err = Some (Wrapped (Wrapped e ''initializing session'') ''setting up client'')\<rparr>)
      \<and> (\<forall>sess. ecs c = None \<and> GetSession = Inr sess \<longrightarrow>
           client (operation GetSession c) = c\<lparr>ecs := Some (ecs_New sess)\<rparr>)
      \<and> (0 < attempts (operation GetSession c) \<longrightarrow> ecs (client (operation GetSession c)) \<noteq> None)
      \<and> (ecs c \<noteq> None \<longrightarrow> client (operation GetSession c) = c))"

definition guarded_by_setup_sm ::
  "(error + 'sess \<Rightarrow> 'sess BasicSecretsManagerClient
     \<Rightarrow> ('sess BasicSecretsManagerClient, 'o) outcome) \<Rightarrow> bool" where
  "guarded_by_setup_sm operation =
     (\<forall>GetSession c.
        (\<forall>e. sm c = None \<and> GetSession = Inl e \<longrightarrow>
           operation GetSession c =
             \<lparr>client = c, attempts = 0, ret_out = None,
              ret_err = Some (Wrapped (Wrapped e ''initializing session'') ''setting up client'')\<rparr>)
      \<and> (\<forall>sess. sm c = None \<and> GetSession = Inr sess \<longrightarrow>
           client (operation GetSession c) = c\<lparr>sm := Some (secretsmanager_New sess)\<rparr>)
      \<and> (0 < attempts (operation GetSession c) \<longrightarrow> sm (client (operation GetSession c)) \<noteq> None)
      \<and> (sm c \<noteq> None \<longrightarrow> client (operation GetSession c) = c))"

section \<open>Properties of the classifiers\<close>

text \<open>
  C1. The ECS classifier answers true exactly on the codes of its table: access denied,
  client exception, invalid parameter (the service's code and the SDK's request-validation
  code), cluster not found and missing required parameter. The Secrets Manager classifier
  answers true exactly on access denied, invalid parameter (again both codes), invalid
  request, resource not found, resource already exists and missing required parameter.
  Every other code string gives false, that is, the error is treated as transient.
\<close>

theorem isNonRetryableErrorCode_tables:
  "isNonRetryableErrorCode_ecs K code =
     (code \<in> {ecs_ErrCodeAccessDeniedException K, ecs_ErrCodeClientException K,
              ecs_ErrCodeInvalidParameterException K, request_InvalidParameterErrCode K,
              ecs_ErrCodeClusterNotFoundException K, request_ParamRequiredErrCode K})
   \<and> isNonRetryableErrorCode_sm K code =
     (code \<in> {''AccessDeniedException'',
              secretsmanager_ErrCodeInvalidParameterException K, request_InvalidParameterErrCode K,
              secretsmanager_ErrCodeInvalidRequestException K,
              secretsmanager_ErrCodeResourceNotFoundException K,
              secretsmanager_ErrCodeResourceExistsException K,
              request_ParamRequiredErrCode K})"
proof
  show "isNonRetryableErrorCode_ecs K code =
     (code \<in> {ecs_ErrCodeAccessDeniedException K, ecs_ErrCodeClientException K,
              ecs_ErrCodeInvalidParameterException K, request_InvalidParameterErrCode K,
              ecs_ErrCodeClusterNotFoundException K, request_ParamRequiredErrCode K})"
    unfolding isNonRetryableErrorCode_ecs_def by simp
  show "isNonRetryableErrorCode_sm K code =
     (code \<in> {''AccessDeniedException'',
              secretsmanager_ErrCodeInvalidParameterException K, request_InvalidParameterErrCode K,
              secretsmanager_ErrCodeInvalidRequestException K,
              secretsmanager_ErrCodeResourceNotFoundException K,
              secretsmanager_ErrCodeResourceExistsException K,
              request_ParamRequiredErrCode K})"
    unfolding isNonRetryableErrorCode_sm_def by simp
qed

theorem isNonRetryableErrorCode_tables_witness:
  "isNonRetryableErrorCode_ecs aws_sdk_codes ''ClusterNotFoundException''
   \<and> \<not> isNonRetryableErrorCode_ecs aws_sdk_codes ''ThrottlingException''
   \<and> \<not> isNonRetryableErrorCode_ecs aws_sdk_codes ''ResourceNotFoundException''
   \<and> isNonRetryableErrorCode_sm aws_sdk_codes ''ResourceNotFoundException''
   \<and> \<not> isNonRetryableErrorCode_sm aws_sdk_codes ''ClusterNotFoundException''"
  using isNonRetryableErrorCode_tables [of aws_sdk_codes "''ClusterNotFoundException''"]
    isNonRetryableErrorCode_tables [of aws_sdk_codes "''ThrottlingException''"]
    isNonRetryableErrorCode_tables [of aws_sdk_codes "''ResourceNotFoundException''"]
  by (simp add: aws_sdk_codes_def)

section \<open>Properties of the failure translator\<close>

lemma ConvertFailureToError_Some: "\<exists>e. ConvertFailureToError (Some f) = Some e"
  by (simp add: ConvertFailureToError_def Let_def)

lemma ConvertFailureToError_not_None [simp]: "ConvertFailureToError (Some f) \<noteq> None"
  using ConvertFailureToError_Some [of f] by auto

text \<open>
  C5. For a non-nil failure whose reason is the sentinel \<open>MISSING\<close> and whose ARN is present
  (a non-nil pointer), \<open>ConvertFailureToError\<close> returns the typed not-found error carrying
  the ARN. Otherwise, when ARN, reason and detail are all empty it returns the generic error
  that no additional failure information was given, and else an error whose message joins
  with \<open>": "\<close>, in the order ARN, reason, detail, those of the three that are not empty,
  each behind its label (\<open>task '...'\<close>, \<open>(reason) \<close>, \<open>(detail) \<close>).
\<close>

theorem ConvertFailureToError_cases:
  "ConvertFailureToError (Some f) =
     Some (if Arn f \<noteq> None \<and> FromStringPtr (Reason f) = ''MISSING''
           then ECSTaskNotFoundError (FromStringPtr (Arn f))
           else if FromStringPtr (Arn f) = [] \<and> FromStringPtr (Reason f) = []
                   \<and> FromStringPtr (Detail f) = []
           then ErrorsNew ''ECS failure did not contain any additional failure information''
           else ErrorsNew
                  (Join (map (\<lambda>(label, closing, text). label @ text @ closing)
                           (filter (\<lambda>(label, closing, text). text \<noteq> [])
                              [(''task '' @ [CHR 0x27], [CHR 0x27], FromStringPtr (Arn f)),
                               (''(reason) '', [], FromStringPtr (Reason f)),
                               (''(detail) '', [], FromStringPtr (Detail f))]))
                     '': ''))"
proof (cases "Arn f")
  case None
  then show ?thesis
    by (simp add: ConvertFailureToError_def isTaskNotFoundFailure_def Let_def FromStringPtr_def)
next
  case (Some a)
  then show ?thesis
    by (simp add: ConvertFailureToError_def isTaskNotFoundFailure_def ReasonTaskMissing_def Let_def)
qed

theorem ConvertFailureToError_cases_witness:
  "ConvertFailureToError (Some \<lparr>Arn = Some ''arn:1'', Detail = None, Reason = Some ''MISSING''\<rparr>)
     = Some (ECSTaskNotFoundError ''arn:1'')
   \<and> ConvertFailureToError (Some \<lparr>Arn = Some ''arn:2'', Detail = Some ''disk full'', Reason = Some ''OTHER''\<rparr>)
     = Some (ErrorsNew (''task '' @ [CHR 0x27] @ ''arn:2'' @ [CHR 0x27]
                          @ '': (reason) OTHER: (detail) disk full''))
   \<and> ConvertFailureToError (Some \<lparr>Arn = None, Detail = None, Reason = Some ''MISSING''\<rparr>)
     = Some (ErrorsNew ''(reason) MISSING'')
   \<and> ConvertFailureToError (Some \<lparr>Arn = None, Detail = None, Reason = None\<rparr>)
     = Some (ErrorsNew ''ECS failure did not contain any additional failure information'')"
  using ConvertFailureToError_cases [of "\<lparr>Arn = Some ''arn:1'', Detail = None, Reason = Some ''MISSING''\<rparr>"]
    ConvertFailureToError_cases [of "\<lparr>Arn = Some ''arn:2'', Detail = Some ''disk full'', Reason = Some ''OTHER''\<rparr>"]
    ConvertFailureToError_cases [of "\<lparr>Arn = None, Detail = None, Reason = Some ''MISSING''\<rparr>"]
    ConvertFailureToError_cases [of "\<lparr>Arn = None, Detail = None, Reason = None\<rparr>"]
  by (simp add: FromStringPtr_def)



section \<open>Properties of the closure of RunTask\<close>

lemma resource_reason:
  "StringSliceContains [''RESOURCE:CPU'', ''RESOURCE:MEMORY''] r
     = (r = ''RESOURCE:CPU'' \<or> r = ''RESOURCE:MEMORY'')"
  by auto

lemma RunTask_failures_eq:
  "RunTask_failures fs c =
     c @ List.map_filter ConvertFailureToError
           (filter (\<lambda>fp. case fp of None \<Rightarrow> False
                       | Some f \<Rightarrow> FromStringPtr (Reason f) = ''RESOURCE:CPU''
                           \<or> FromStringPtr (Reason f) = ''RESOURCE:MEMORY'') fs)"
proof (induction fs arbitrary: c)
  case Nil
  show ?case by (simp add: List.map_filter_simps)
next
  case (Cons fp fs)
  show ?case
  proof (cases fp)
    case None
    then show ?thesis using Cons.IH by simp
  next
    case (Some f)
    obtain e where e: "ConvertFailureToError (Some f) = Some e"
      using ConvertFailureToError_Some by blast
    show ?thesis
      using Some e Cons.IH
      by (simp only: RunTask_failures.simps option.case resource_reason filter.simps
            List.map_filter_simps catcher_Add_def split: if_splits) simp
  qed
qed

lemma map_filter_Nil_iff:
  "List.map_filter ConvertFailureToError xs = [] \<longleftrightarrow> (\<forall>x \<in> set xs. x = None)"
proof (induction xs)
  case Nil
  show ?case by (simp add: List.map_filter_simps)
next
  case (Cons x xs)
  show ?case
  proof (cases x)
    case None
    then show ?thesis using Cons.IH
      by (simp add: List.map_filter_simps ConvertFailureToError_def)
  next
    case (Some f)
    obtain e where e: "ConvertFailureToError (Some f) = Some e"
      using ConvertFailureToError_Some by blast
    show ?thesis using Some e by (simp add: List.map_filter_simps)
  qed
qed

lemma RunTask_failures_empty_iff:
  "RunTask_failures fs NewBasicCatcher = [] \<longleftrightarrow>
     \<not> (\<exists>f. Some f \<in> set fs \<and> (FromStringPtr (Reason f) = ''RESOURCE:CPU''
                \<or> FromStringPtr (Reason f) = ''RESOURCE:MEMORY''))"
proof -
  have "RunTask_failures fs NewBasicCatcher = [] \<longleftrightarrow>
      (\<forall>x \<in> set (filter (\<lambda>fp. case fp of None \<Rightarrow> False
                       | Some f \<Rightarrow> FromStringPtr (Reason f) = ''RESOURCE:CPU''
                           \<or> FromStringPtr (Reason f) = ''RESOURCE:MEMORY'') fs). x = None)"
    by (simp only: RunTask_failures_eq NewBasicCatcher_def append_Nil map_filter_Nil_iff)
  also have "\<dots> \<longleftrightarrow> \<not> (\<exists>f. Some f \<in> set fs \<and> (FromStringPtr (Reason f) = ''RESOURCE:CPU''
                \<or> FromStringPtr (Reason f) = ''RESOURCE:MEMORY''))"
    by (auto split: option.splits)
  finally show ?thesis .
qed

lemma decide_RunTask_no_error:
  "decide_RunTask K inp out None =
     (if FromInt64Ptr (Count inp) = 1 \<and> Tasks out = [] \<and> Failures out \<noteq> []
         \<and> RunTask_failures (Failures out) NewBasicCatcher \<noteq> []
      then (True, Some (Wrapped (CatcherErrors (RunTask_failures (Failures out) NewBasicCatcher))
                          ''cluster has insufficient resources''))
      else (False, None))"
  by (simp add: decide_RunTask_def Let_def catcher_HasErrors_def catcher_Resolve_def
        errors_Wrap_def)

lemma RunTask_failures_skip_nil:
  "RunTask_failures (filter (\<lambda>f. f \<noteq> None) fs) c = RunTask_failures fs c"
  by (induction fs arbitrary: c) (simp_all split: option.splits)

text \<open>
  C10. \<open>ConvertFailureToError\<close> of a nil pointer is nil, not the generic error. The loop of
  \<open>RunTask\<close> over the failures skips nil entries: a nil entry leaves the catcher as it is,
  the loop collects the same errors with and without the nil entries, and the decision of the
  closure does not change when the nil entries are taken out of the output's failures.
\<close>

theorem nil_failures_skipped:
  "ConvertFailureToError None = None
   \<and> RunTask_failures (None # fs) catcher = RunTask_failures fs catcher
   \<and> RunTask_failures (filter (\<lambda>f. f \<noteq> None) fs) catcher = RunTask_failures fs catcher
   \<and> decide_RunTask K inp (out\<lparr>Failures := filter (\<lambda>f. f \<noteq> None) (Failures out)\<rparr>) err
       = decide_RunTask K inp out err"
proof (intro conjI)
  show "ConvertFailureToError None = None" by (simp add: ConvertFailureToError_def)
  show "RunTask_failures (None # fs) catcher = RunTask_failures fs catcher" by simp
  show "RunTask_failures (filter (\<lambda>f. f \<noteq> None) fs) catcher = RunTask_failures fs catcher"
    by (rule RunTask_failures_skip_nil)
  show "decide_RunTask K inp (out\<lparr>Failures := filter (\<lambda>f. f \<noteq> None) (Failures out)\<rparr>) err
       = decide_RunTask K inp out err"
  proof (cases "filter (\<lambda>f. f \<noteq> None) (Failures out) = []")
    case True
    then have "RunTask_failures (Failures out) NewBasicCatcher = NewBasicCatcher"
      using RunTask_failures_skip_nil [of "Failures out" NewBasicCatcher] by simp
    then show ?thesis using True
      by (simp add: decide_RunTask_def Let_def NewBasicCatcher_def catcher_HasErrors_def
            catcher_Resolve_def errors_Wrap_def)
  next
    case False
    then have "Failures out \<noteq> []" by auto
    then show ?thesis using False
      by (simp add: decide_RunTask_def Let_def RunTask_failures_skip_nil del: not_None_eq)
  qed
qed

theorem nil_failures_skipped_witness:
  "decide_RunTask aws_sdk_codes \<lparr>Count = Some 1\<rparr>
     \<lparr>Failures = [None, Some \<lparr>Arn = None, Detail = None, Reason = Some ''RESOURCE:MEMORY''\<rparr>, None],
      Tasks = ([] :: unit list)\<rparr> None
   = decide_RunTask aws_sdk_codes \<lparr>Count = Some 1\<rparr>
     \<lparr>Failures = [Some \<lparr>Arn = None, Detail = None, Reason = Some ''RESOURCE:MEMORY''\<rparr>],
      Tasks = ([] :: unit list)\<rparr> None"
  using nil_failures_skipped [of "[]" "[]" aws_sdk_codes "\<lparr>Count = Some 1\<rparr>"
     "\<lparr>Failures = [None, Some \<lparr>Arn = None, Detail = None, Reason = Some ''RESOURCE:MEMORY''\<rparr>, None],
      Tasks = ([] :: unit list)\<rparr>" None]
  by simp

text \<open>
  C2. When the remote call of \<open>RunTask\<close> returns no error, the closure says retry if and only
  if the requested count is 1, no task was launched, at least one failure was reported and some
  reported failure has the reason \<open>RESOURCE:CPU\<close> or \<open>RESOURCE:MEMORY\<close>. The error it then
  returns wraps the conversions of exactly the failures with such a reason, in their order.
  With any other count the heuristic is not applied: no retry and no error, whatever the
  failures say.
\<close>

theorem RunTask_capacity_heuristic:
  "(fst (decide_RunTask K inp out None) \<longleftrightarrow>
      FromInt64Ptr (Count inp) = 1 \<and> length (Tasks out) = 0 \<and> length (Failures out) > 0
      \<and> (\<exists>f. Some f \<in> set (Failures out)
             \<and> (FromStringPtr (Reason f) = ''RESOURCE:CPU''
                  \<or> FromStringPtr (Reason f) = ''RESOURCE:MEMORY'')))
   \<and> (fst (decide_RunTask K inp out None) \<longrightarrow>
        snd (decide_RunTask K inp out None) =
          Some (Wrapped
                 (CatcherErrors
                    (List.map_filter ConvertFailureToError
                       (filter (\<lambda>fp. case fp of None \<Rightarrow> False
                                 | Some f \<Rightarrow> FromStringPtr (Reason f) = ''RESOURCE:CPU''
                                     \<or> FromStringPtr (Reason f) = ''RESOURCE:MEMORY'')
                          (Failures out))))
                 ''cluster has insufficient resources''))
   \<and> (FromInt64Ptr (Count inp) \<noteq> 1 \<longrightarrow> decide_RunTask K inp out None = (False, None))"
proof (intro conjI)
  show "fst (decide_RunTask K inp out None) \<longleftrightarrow>
      FromInt64Ptr (Count inp) = 1 \<and> length (Tasks out) = 0 \<and> length (Failures out) > 0
      \<and> (\<exists>f. Some f \<in> set (Failures out)
             \<and> (FromStringPtr (Reason f) = ''RESOURCE:CPU''
                  \<or> FromStringPtr (Reason f) = ''RESOURCE:MEMORY''))"
    unfolding decide_RunTask_no_error using RunTask_failures_empty_iff [of "Failures out"]
    by auto
  show "fst (decide_RunTask K inp out None) \<longrightarrow>
        snd (decide_RunTask K inp out None) =
          Some (Wrapped
                 (CatcherErrors
                    (List.map_filter ConvertFailureToError
                       (filter (\<lambda>fp. case fp of None \<Rightarrow> False
                                 | Some f \<Rightarrow> FromStringPtr (Reason f) = ''RESOURCE:CPU''
                                     \<or> FromStringPtr (Reason f) = ''RESOURCE:MEMORY'')
                          (Failures out))))
                 ''cluster has insufficient resources'')"
    unfolding decide_RunTask_no_error
    by (simp add: RunTask_failures_eq NewBasicCatcher_def)
  show "FromInt64Ptr (Count inp) \<noteq> 1 \<longrightarrow> decide_RunTask K inp out None = (False, None)"
    unfolding decide_RunTask_no_error by simp
qed

theorem RunTask_capacity_heuristic_witness:
  "fst (decide_RunTask aws_sdk_codes \<lparr>Count = Some 1\<rparr>
          \<lparr>Failures = [Some \<lparr>Arn = None, Detail = None, Reason = Some ''RESOURCE:CPU''\<rparr>],
           Tasks = ([] :: unit list)\<rparr> None)
   \<and> \<not> fst (decide_RunTask aws_sdk_codes \<lparr>Count = Some 2\<rparr>
          \<lparr>Failures = [Some \<lparr>Arn = None, Detail = None, Reason = Some ''RESOURCE:CPU''\<rparr>,
                       Some \<lparr>Arn = None, Detail = None, Reason = Some ''RESOURCE:CPU''\<rparr>],
           Tasks = ([] :: unit list)\<rparr> None)"
  using RunTask_capacity_heuristic [of aws_sdk_codes "\<lparr>Count = Some 1\<rparr>"
          "\<lparr>Failures = [Some \<lparr>Arn = None, Detail = None, Reason = Some ''RESOURCE:CPU''\<rparr>],
           Tasks = ([] :: unit list)\<rparr>"]
        RunTask_capacity_heuristic [of aws_sdk_codes "\<lparr>Count = Some 2\<rparr>"
          "\<lparr>Failures = [Some \<lparr>Arn = None, Detail = None, Reason = Some ''RESOURCE:CPU''\<rparr>,
                       Some \<lparr>Arn = None, Detail = None, Reason = Some ''RESOURCE:CPU''\<rparr>],
           Tasks = ([] :: unit list)\<rparr>"]
  by (simp add: FromInt64Ptr_def FromStringPtr_def)

text \<open>
  C6. In \<open>RunTask\<close>, when the text of the error of the remote call contains
  \<open>provisioning capacity limit exceeded\<close>, the attempt says retry and returns that error,
  whatever the code of the error is, also a code of the non-retryable table.
\<close>

theorem RunTask_provisioning_capacity:
  assumes "service (calls st) = (out, Some (AwsError awsErr))"
    and "Contains (Error awsErr) ''provisioning capacity limit exceeded''"
  shows "fst (remote_attempt (decide_RunTask K inp) service st) = (True, Some (AwsError awsErr))"
  using assms by (simp add: remote_attempt_def decide_RunTask_def)

theorem RunTask_provisioning_capacity_witness:
  "isNonRetryableErrorCode_ecs aws_sdk_codes ''ClientException''
   \<and> fst (remote_attempt (decide_RunTask aws_sdk_codes \<lparr>Count = Some 2\<rparr>)
            (\<lambda>k. (\<lparr>Failures = [], Tasks = ([] :: unit list)\<rparr>,
                   Some (AwsError \<lparr>Code = ''ClientException'',
                                   Message = ''provisioning capacity limit exceeded'',
                                   Error = ''ClientException: provisioning capacity limit exceeded''\<rparr>)))
            \<lparr>out_var = None, err_var = None, calls = 0\<rparr>)
       = (True, Some (AwsError \<lparr>Code = ''ClientException'',
                                   Message = ''provisioning capacity limit exceeded'',
                                   Error = ''ClientException: provisioning capacity limit exceeded''\<rparr>))"
proof
  show "isNonRetryableErrorCode_ecs aws_sdk_codes ''ClientException''"
    by (simp add: isNonRetryableErrorCode_ecs_def aws_sdk_codes_def)
  have found: "Contains (Error \<lparr>Code = ''ClientException'',
                  Message = ''provisioning capacity limit exceeded'',
                  Error = ''ClientException: provisioning capacity limit exceeded''\<rparr>)
           ''provisioning capacity limit exceeded''"
    by simp
  show "fst (remote_attempt (decide_RunTask aws_sdk_codes \<lparr>Count = Some 2\<rparr>)
            (\<lambda>k. (\<lparr>Failures = [], Tasks = ([] :: unit list)\<rparr>,
                   Some (AwsError \<lparr>Code = ''ClientException'',
                                   Message = ''provisioning capacity limit exceeded'',
                                   Error = ''ClientException: provisioning capacity limit exceeded''\<rparr>)))
            \<lparr>out_var = None, err_var = None, calls = 0\<rparr>)
       = (True, Some (AwsError \<lparr>Code = ''ClientException'',
                                   Message = ''provisioning capacity limit exceeded'',
                                   Error = ''ClientException: provisioning capacity limit exceeded''\<rparr>))"
    by (rule RunTask_provisioning_capacity [OF _ found]) simp
qed

section \<open>Operations that stop at their first attempt\<close>

lemma Retry_first_stop:
  assumes "0 < MaxAttempts opts" and "attemptFn s = ((b, e), s')" and "e = None \<or> \<not> b"
  shows "Retry ctx attemptFn opts s = (e, 1, s')"
proof -
  obtain m where m: "MaxAttempts opts = Suc m"
    using assms(1) by (cases "MaxAttempts opts") auto
  show ?thesis using assms(2,3) by (auto simp: Retry_def m)
qed

lemma retry_call_first_stop:
  assumes "0 < MaxAttempts opts" and "service 0 = (out, err)" and "decide out err = (b, e)"
    and "e = None \<or> \<not> b"
  shows "retry_call ctx opts (remote_attempt decide service) c =
           \<lparr>client = c, attempts = 1, ret_out = (if e = None then Some out else None), ret_err = e\<rparr>"
proof -
  have "remote_attempt decide service \<lparr>out_var = None, err_var = None, calls = 0\<rparr> =
          ((b, e), \<lparr>out_var = Some out, err_var = err, calls = Suc 0\<rparr>)"
    using assms(2,3) by (simp add: remote_attempt_def)
  then have "Retry ctx (remote_attempt decide service) opts
          \<lparr>out_var = None, err_var = None, calls = 0\<rparr> =
          (e, 1, \<lparr>out_var = Some out, err_var = err, calls = Suc 0\<rparr>)"
    using assms(1,4)
      Retry_first_stop [of opts "remote_attempt decide service"
        "\<lparr>out_var = None, err_var = None, calls = 0\<rparr>" b e
        "\<lparr>out_var = Some out, err_var = err, calls = Suc 0\<rparr>" ctx]
    by simp
  then show ?thesis by (cases e) (simp_all add: retry_call_def)
qed

lemma setup_ecs_done: "setup_ecs GetSession c = (None, c') \<Longrightarrow> ecs c' \<noteq> None"
  by (auto simp: setup_ecs_def errors_Wrap_def split: if_splits sum.splits)

lemma setup_sm_done: "setup_sm GetSession c = (None, c') \<Longrightarrow> sm c' \<noteq> None"
  by (auto simp: setup_sm_def errors_Wrap_def split: if_splits sum.splits)

lemma client_retry_call: "client (retry_call ctx opts closure c) = c"
  by (simp add: retry_call_def split: prod.splits option.splits)

lemma ecs_operation_ready:
  "fst (setup_ecs GetSession c) = None \<Longrightarrow>
     ecs_operation ctx opts GetSession closure c =
       retry_call ctx opts closure (snd (setup_ecs GetSession c))"
  by (cases "setup_ecs GetSession c") (simp add: ecs_operation_def)

lemma sm_operation_ready:
  "fst (setup_sm GetSession c) = None \<Longrightarrow>
     sm_operation ctx opts GetSession closure c =
       retry_call ctx opts closure (snd (setup_sm GetSession c))"
  by (cases "setup_sm GetSession c") (simp add: sm_operation_def)

text \<open>
  C9. In \<open>RunTask\<close> with count 1, when the remote call returns no error, no launched task and
  only failures whose reason is neither \<open>RESOURCE:CPU\<close> nor \<open>RESOURCE:MEMORY\<close>, the attempt
  says no retry with a nil error; so \<open>RunTask\<close>, once \<open>setup\<close> has succeeded and with a budget
  of at least one attempt, returns after this one remote call the output and a nil error: the
  failures are in the returned output only.
\<close>

theorem RunTask_other_failures:
  assumes "FromInt64Ptr (Count inp) = 1" and "length (Tasks out) = 0"
    and "\<forall>f. Some f \<in> set (Failures out) \<longrightarrow>
           FromStringPtr (Reason f) \<noteq> ''RESOURCE:CPU'' \<and> FromStringPtr (Reason f) \<noteq> ''RESOURCE:MEMORY''"
    and "service 0 = (out, None)" and "0 < MaxAttempts opts"
    and "fst (setup_ecs GetSession c) = None"
  shows "decide_RunTask K inp out None = (False, None)
       \<and> RunTask K inp ctx opts GetSession service c =
           \<lparr>client = snd (setup_ecs GetSession c), attempts = 1, ret_out = Some out, ret_err = None\<rparr>"
proof -
  have "RunTask_failures (Failures out) NewBasicCatcher = []"
    using assms(3) RunTask_failures_empty_iff [of "Failures out"] by blast
  then have d: "decide_RunTask K inp out None = (False, None)"
    by (simp add: decide_RunTask_no_error)
  have "retry_call ctx opts (remote_attempt (decide_RunTask K inp) service) (snd (setup_ecs GetSession c)) =
          \<lparr>client = snd (setup_ecs GetSession c), attempts = 1, ret_out = Some out, ret_err = None\<rparr>"
    using retry_call_first_stop [of opts service out None "decide_RunTask K inp" False None]
      assms(4,5) d by simp
  then have "RunTask K inp ctx opts GetSession service c =
          \<lparr>client = snd (setup_ecs GetSession c), attempts = 1, ret_out = Some out, ret_err = None\<rparr>"
    using assms(6) by (simp add: RunTask_def ecs_operation_ready)
  with d show ?thesis by simp
qed

theorem RunTask_other_failures_witness:
  "RunTask aws_sdk_codes \<lparr>Count = Some 1\<rparr> (\<lambda>k. False) \<lparr>MaxAttempts = 3\<rparr> (Inr ''session'')
     (\<lambda>k. (\<lparr>Failures = [None, Some \<lparr>Arn = Some ''arn:3'', Detail = None, Reason = Some ''AGENT''\<rparr>],
             Tasks = ([] :: unit list)\<rparr>, None))
     \<lparr>ecs = None\<rparr>
   = \<lparr>client = \<lparr>ecs = Some (ecs_New ''session'')\<rparr>, attempts = 1,
      ret_out = Some \<lparr>Failures = [None, Some \<lparr>Arn = Some ''arn:3'', Detail = None, Reason = Some ''AGENT''\<rparr>],
                      Tasks = ([] :: unit list)\<rparr>,
      ret_err = None\<rparr>"
  using RunTask_other_failures [of "\<lparr>Count = Some 1\<rparr>"
      "\<lparr>Failures = [None, Some \<lparr>Arn = Some ''arn:3'', Detail = None, Reason = Some ''AGENT''\<rparr>],
        Tasks = ([] :: unit list)\<rparr>"
      "\<lambda>k. (\<lparr>Failures = [None, Some \<lparr>Arn = Some ''arn:3'', Detail = None, Reason = Some ''AGENT''\<rparr>],
             Tasks = ([] :: unit list)\<rparr>, None)"
      "\<lparr>MaxAttempts = 3\<rparr>" "Inr ''session''" "\<lparr>ecs = None\<rparr>" aws_sdk_codes "\<lambda>k. False"]
  by (simp add: FromInt64Ptr_def FromStringPtr_def setup_ecs_def)

text \<open>
  C4. In \<open>StopTask\<close>, when the remote call returns an invalid-parameter error whose message
  contains \<open>The referenced task was not found\<close>, the attempt says no retry and returns the
  typed task-not-found error that carries the task of the input, where the generic decision
  would have returned the error of the service as it is; \<open>StopTask\<close>, once \<open>setup\<close> has
  succeeded and with a budget of at least one attempt, returns that typed error and no output
  after this one remote call.
\<close>

theorem StopTask_task_not_found:
  assumes "service 0 = (out, Some (AwsError awsErr))"
    and "Code awsErr = ecs_ErrCodeInvalidParameterException K"
    and "Contains (Message awsErr) ''The referenced task was not found''"
    and "0 < MaxAttempts opts"
    and "fst (setup_ecs GetSession c) = None"
  shows "decide_StopTask K inp (Some (AwsError awsErr)) =
           (False, Some (ECSTaskNotFoundError (FromStringPtr (Task inp))))
       \<and> decide_ecs K (Some (AwsError awsErr)) = (False, Some (AwsError awsErr))
       \<and> StopTask K inp ctx opts GetSession service c =
           \<lparr>client = snd (setup_ecs GetSession c), attempts = 1, ret_out = None,
            ret_err = Some (ECSTaskNotFoundError (FromStringPtr (Task inp)))\<rparr>"
proof -
  have d: "decide_StopTask K inp (Some (AwsError awsErr)) =
           (False, Some (ECSTaskNotFoundError (FromStringPtr (Task inp))))"
    using assms(2,3) by (simp add: decide_StopTask_def isTaskNotFoundError_def)
  have g: "decide_ecs K (Some (AwsError awsErr)) = (False, Some (AwsError awsErr))"
    using assms(2) by (simp add: decide_ecs_def isNonRetryableErrorCode_ecs_def)
  have "retry_call ctx opts (remote_attempt (\<lambda>out err. decide_StopTask K inp err) service)
          (snd (setup_ecs GetSession c)) =
          \<lparr>client = snd (setup_ecs GetSession c), attempts = 1, ret_out = None,
            ret_err = Some (ECSTaskNotFoundError (FromStringPtr (Task inp)))\<rparr>"
    using retry_call_first_stop [of opts service out "Some (AwsError awsErr)"
        "\<lambda>out err. decide_StopTask K inp err" False
        "Some (ECSTaskNotFoundError (FromStringPtr (Task inp)))"] assms(1,4) d
    by simp
  then have "StopTask K inp ctx opts GetSession service c =
           \<lparr>client = snd (setup_ecs GetSession c), attempts = 1, ret_out = None,
            ret_err = Some (ECSTaskNotFoundError (FromStringPtr (Task inp)))\<rparr>"
    using assms(5) by (simp add: StopTask_def ecs_operation_ready)
  with d g show ?thesis by simp
qed

theorem StopTask_task_not_found_witness:
  "StopTask aws_sdk_codes \<lparr>Task = Some ''t1''\<rparr> (\<lambda>k. False) \<lparr>MaxAttempts = 3\<rparr> (Inr ''session'')
     (\<lambda>k. ((), Some (AwsError \<lparr>Code = ''InvalidParameterException'',
                               Message = ''The referenced task was not found.'',
                               Error = ''InvalidParameterException: The referenced task was not found.''\<rparr>)))
     \<lparr>ecs = None\<rparr>
   = \<lparr>client = \<lparr>ecs = Some (ecs_New ''session'')\<rparr>, attempts = 1, ret_out = None,
      ret_err = Some (ECSTaskNotFoundError ''t1'')\<rparr>"
  using StopTask_task_not_found [of
      "\<lambda>k. ((), Some (AwsError \<lparr>Code = ''InvalidParameterException'',
                               Message = ''The referenced task was not found.'',
                               Error = ''InvalidParameterException: The referenced task was not found.''\<rparr>))"
      "()" "\<lparr>Code = ''InvalidParameterException'',
                               Message = ''The referenced task was not found.'',
                               Error = ''InvalidParameterException: The referenced task was not found.''\<rparr>"
      aws_sdk_codes "\<lparr>MaxAttempts = 3\<rparr>" "Inr ''session''" "\<lparr>ecs = None\<rparr>"
      "\<lparr>Task = Some ''t1''\<rparr>" "\<lambda>k. False"]
  by (simp add: FromStringPtr_def setup_ecs_def aws_sdk_codes_def)

section \<open>Properties of the retry executor\<close>

lemma Retry_loop_transient:
  assumes fails: "\<forall>k<N. fst (attemptFn (after_attempts attemptFn k s)) = (True, Some (errs k))"
    and succeeds: "fst (attemptFn (after_attempts attemptFn N s)) = (b, None)"
    and alive: "\<forall>k. \<not> ctx k"
  shows "made \<le> N \<Longrightarrow>
     Retry_loop ctx attemptFn left made lastErr (after_attempts attemptFn made s) =
       (if N - made < left then (None, Suc N, after_attempts attemptFn (Suc N) s)
        else (Some (RetriesExhausted (if left = 0 then lastErr else Some (errs (made + left - 1)))),
              made + left, after_attempts attemptFn (made + left) s))"
proof (induction left arbitrary: made lastErr)
  case 0
  show ?case by simp
next
  case (Suc left)
  show ?case
  proof (cases "made = N")
    case True
    obtain s' where "attemptFn (after_attempts attemptFn N s) = ((b, None), s')"
      using succeeds by (cases "attemptFn (after_attempts attemptFn N s)") auto
    then show ?thesis using True alive by simp
  next
    case False
    then have lt: "made < N" using Suc.prems by simp
    obtain s' where s': "attemptFn (after_attempts attemptFn made s) = ((True, Some (errs made)), s')"
      using fails lt by (cases "attemptFn (after_attempts attemptFn made s)") auto
    then have next_state: "after_attempts attemptFn (Suc made) s = s'" by simp
    have "Retry_loop ctx attemptFn (Suc left) made lastErr (after_attempts attemptFn made s) =
            Retry_loop ctx attemptFn left (Suc made) (Some (errs made))
              (after_attempts attemptFn (Suc made) s)"
      using s' alive by (simp del: after_attempts.simps add: next_state)
    also have "\<dots> =
       (if N - Suc made < left then (None, Suc N, after_attempts attemptFn (Suc N) s)
        else (Some (RetriesExhausted (if left = 0 then Some (errs made)
                                       else Some (errs (Suc made + left - 1)))),
              Suc made + left, after_attempts attemptFn (Suc made + left) s))"
      using Suc.IH [of "Suc made" "Some (errs made)"] lt by simp
    also have "\<dots> =
       (if N - made < Suc left then (None, Suc N, after_attempts attemptFn (Suc N) s)
        else (Some (RetriesExhausted (if Suc left = 0 then lastErr
                                       else Some (errs (made + Suc left - 1)))),
              made + Suc left, after_attempts attemptFn (made + Suc left) s))"
      using lt by (cases "left = 0") (auto simp del: after_attempts.simps)
    finally show ?thesis .
  qed
qed

text \<open>
  C3. An attempt function that fails transiently \<open>N\<close> times (retry flag set, error
  \<open>errs k\<close> at the \<open>k\<close>-th invocation) and then succeeds (no error) is given to the executor,
  under a context that is not cancelled. If \<open>N + 1\<close> is within the attempt budget, the executor
  returns no error after exactly \<open>N + 1\<close> invocations, in the state the successful attempt
  left (where the closure keeps its result). Otherwise it returns, after exactly as many
  invocations as the budget allows, the exhaustion error that wraps the last observed error
  (none if the budget allowed no attempt at all).
\<close>

theorem Retry_transient_then_success:
  assumes "\<forall>k<N. fst (attemptFn (after_attempts attemptFn k s)) = (True, Some (errs k))"
    and "fst (attemptFn (after_attempts attemptFn N s)) = (b, None)"
    and "\<forall>k. \<not> ctx k"
  shows "Retry ctx attemptFn opts s =
     (if N + 1 \<le> MaxAttempts opts
      then (None, N + 1, after_attempts attemptFn (N + 1) s)
      else (Some (RetriesExhausted (if MaxAttempts opts = 0 then None
                                    else Some (errs (MaxAttempts opts - 1)))),
            MaxAttempts opts, after_attempts attemptFn (MaxAttempts opts) s))"
  using Retry_loop_transient [OF assms, of 0 "MaxAttempts opts" None]
  by (simp add: Retry_def del: after_attempts.simps) auto

theorem Retry_transient_then_success_witness:
  "Retry (\<lambda>k. False)
     (\<lambda>n. (if n < 2 then (True, Some (OtherError ''throttled'')) else (False, None), Suc n))
     \<lparr>MaxAttempts = 5\<rparr> 0 = (None, 3, 3)
   \<and> Retry (\<lambda>k. False)
     (\<lambda>n. (if n < 2 then (True, Some (OtherError ''throttled'')) else (False, None), Suc n))
     \<lparr>MaxAttempts = 2\<rparr> 0 = (Some (RetriesExhausted (Some (OtherError ''throttled''))), 2, 2)"
proof -
  let ?f = "\<lambda>n::nat. (if n < 2 then (True, Some (OtherError ''throttled'')) else (False, None), Suc n)"
  have state: "after_attempts ?f k 0 = k" for k
    by (induction k) simp_all
  have fails: "\<forall>k<2. fst (?f (after_attempts ?f k 0)) = (True, Some (OtherError ''throttled''))"
    by (simp add: state)
  have succeeds: "fst (?f (after_attempts ?f 2 0)) = (False, None)"
    by (simp only: state) simp
  have alive: "\<forall>k. \<not> (\<lambda>k::nat. False) k"
    by simp
  show ?thesis
    using Retry_transient_then_success [of 2 ?f 0 "\<lambda>k. OtherError ''throttled''" False "\<lambda>k. False",
        OF fails succeeds alive, of "\<lparr>MaxAttempts = 5\<rparr>"]
      Retry_transient_then_success [of 2 ?f 0 "\<lambda>k. OtherError ''throttled''" False "\<lambda>k. False",
        OF fails succeeds alive, of "\<lparr>MaxAttempts = 2\<rparr>"]
    by (simp only: state) simp
qed

text \<open>
  The same run seen from an operation of the ECS client: when the service answers
  \<open>RegisterTaskDefinition\<close> with \<open>N\<close> errors that the classifier does not list and then
  with an output and no error, and \<open>N + 1\<close> is within the budget, the operation returns that
  output and a nil error after \<open>N + 1\<close> remote calls.
\<close>

lemma after_remote_attempts:
  "after_attempts (remote_attempt decide service) (Suc k) \<lparr>out_var = None, err_var = None, calls = 0\<rparr>
     = \<lparr>out_var = Some (fst (service k)), err_var = snd (service k), calls = Suc k\<rparr>"
proof (induction k)
  case 0
  show ?case by (simp add: remote_attempt_def split: prod.splits)
next
  case (Suc k)
  show ?case
    by (simp only: after_attempts.simps(2) [of _ "Suc k"] Suc.IH)
       (simp add: remote_attempt_def split: prod.splits)
qed

lemma calls_after_remote_attempts:
  "calls (after_attempts (remote_attempt decide service) k \<lparr>out_var = None, err_var = None, calls = 0\<rparr>) = k"
  by (induction k) (simp_all add: remote_attempt_def split: prod.splits)

lemma decide_ecs_transient:
  "\<forall>a. e = AwsError a \<longrightarrow> \<not> isNonRetryableErrorCode_ecs K (Code a) \<Longrightarrow>
     decide_ecs K (Some e) = (True, Some e)"
  by (cases e) (simp_all add: decide_ecs_def)

lemma RegisterTaskDefinition_retries:
  assumes transient: "\<forall>k<N. snd (service k) = Some (errs k)
              \<and> (\<forall>a. errs k = AwsError a \<longrightarrow> \<not> isNonRetryableErrorCode_ecs K (Code a))"
    and success: "service N = (out, None)"
    and alive: "\<forall>k. \<not> ctx k"
    and ready: "fst (setup_ecs GetSession c) = None"
    and budget: "N < MaxAttempts opts"
  shows "RegisterTaskDefinition K ctx opts GetSession service c =
           \<lparr>client = snd (setup_ecs GetSession c), attempts = N + 1, ret_out = Some out, ret_err = None\<rparr>"
proof -
  let ?f = "remote_attempt (\<lambda>out err. decide_ecs K err) service"
  let ?s = "\<lparr>out_var = None, err_var = None, calls = 0\<rparr>"
  have step: "fst (?f (after_attempts ?f k ?s)) = decide_ecs K (snd (service k))" for k
    using calls_after_remote_attempts [of "\<lambda>out err. decide_ecs K err" service k]
    by (simp add: remote_attempt_def split: prod.splits)
  have fails: "\<forall>k<N. fst (?f (after_attempts ?f k ?s)) = (True, Some (errs k))"
    using transient by (simp add: step decide_ecs_transient)
  have succeeds: "fst (?f (after_attempts ?f N ?s)) = (True, None)"
  proof -
    have "decide_ecs K (snd (service N)) = (True, None)"
      using success by (simp add: decide_ecs_def)
    then show ?thesis by (simp only: step)
  qed
  have "Retry ctx ?f opts ?s = (None, Suc N, after_attempts ?f (Suc N) ?s)"
    using Retry_loop_transient [OF fails succeeds alive, of 0 "MaxAttempts opts" None] budget
    by (simp add: Retry_def del: after_attempts.simps(2))
  then have "retry_call ctx opts ?f (snd (setup_ecs GetSession c)) =
           \<lparr>client = snd (setup_ecs GetSession c), attempts = N + 1, ret_out = Some out, ret_err = None\<rparr>"
    using success by (simp add: retry_call_def after_remote_attempts del: after_attempts.simps)
  then show ?thesis using ready by (simp add: RegisterTaskDefinition_def ecs_operation_ready)
qed

section \<open>Properties of setup\<close>

lemma ecs_operation_guarded: "guarded_by_setup_ecs (\<lambda>g. ecs_operation ctx opts g closure)"
  unfolding guarded_by_setup_ecs_def
proof (intro allI conjI impI)
  fix GetSession :: "error + 'a" and c :: "'a BasicClient" and e
  assume "ecs c = None \<and> GetSession = Inl e"
  then show "ecs_operation ctx opts GetSession closure c =
     \<lparr>client = c, attempts = 0, ret_out = None,
      ret_err = Some (Wrapped (Wrapped e ''initializing session'') ''setting up client'')\<rparr>"
    by (simp add: ecs_operation_def setup_ecs_def errors_Wrap_def)
next
  fix GetSession :: "error + 'a" and c :: "'a BasicClient" and sess
  assume "ecs c = None \<and> GetSession = Inr sess"
  then show "client (ecs_operation ctx opts GetSession closure c) = c\<lparr>ecs := Some (ecs_New sess)\<rparr>"
    by (simp add: ecs_operation_def setup_ecs_def client_retry_call)
next
  fix GetSession :: "error + 'a" and c :: "'a BasicClient"
  assume called: "0 < attempts (ecs_operation ctx opts GetSession closure c)"
  obtain r c' where r: "setup_ecs GetSession c = (r, c')"
    by (cases "setup_ecs GetSession c")
  show "ecs (client (ecs_operation ctx opts GetSession closure c)) \<noteq> None"
  proof (cases r)
    case None
    then show ?thesis using r setup_ecs_done [of GetSession c c']
      by (simp add: ecs_operation_def client_retry_call)
  next
    case (Some e)
    then show ?thesis using r called by (simp add: ecs_operation_def)
  qed
next
  fix GetSession :: "error + 'a" and c :: "'a BasicClient"
  assume "ecs c \<noteq> None"
  then show "client (ecs_operation ctx opts GetSession closure c) = c"
    by (simp add: ecs_operation_def setup_ecs_def client_retry_call)
qed

lemma sm_operation_guarded: "guarded_by_setup_sm (\<lambda>g. sm_operation ctx opts g closure)"
  unfolding guarded_by_setup_sm_def
proof (intro allI conjI impI)
  fix GetSession :: "error + 'a" and c :: "'a BasicSecretsManagerClient" and e
  assume "sm c = None \<and> GetSession = Inl e"
  then show "sm_operation ctx opts GetSession closure c =
     \<lparr>client = c, attempts = 0, ret_out = None,
      ret_err = Some (Wrapped (Wrapped e ''initializing session'') ''setting up client'')\<rparr>"
    by (simp add: sm_operation_def setup_sm_def errors_Wrap_def)
next
  fix GetSession :: "error + 'a" and c :: "'a BasicSecretsManagerClient" and sess
  assume "sm c = None \<and> GetSession = Inr sess"
  then show "client (sm_operation ctx opts GetSession closure c) =
      c\<lparr>sm := Some (secretsmanager_New sess)\<rparr>"
    by (simp add: sm_operation_def setup_sm_def client_retry_call)
next
  fix GetSession :: "error + 'a" and c :: "'a BasicSecretsManagerClient"
  assume called: "0 < attempts (sm_operation ctx opts GetSession closure c)"
  obtain r c' where r: "setup_sm GetSession c = (r, c')"
    by (cases "setup_sm GetSession c")
  show "sm (client (sm_operation ctx opts GetSession closure c)) \<noteq> None"
  proof (cases r)
    case None
    then show ?thesis using r setup_sm_done [of GetSession c c']
      by (simp add: sm_operation_def client_retry_call)
  next
    case (Some e)
    then show ?thesis using r called by (simp add: sm_operation_def)
  qed
next
  fix GetSession :: "error + 'a" and c :: "'a BasicSecretsManagerClient"
  assume "sm c \<noteq> None"
  then show "client (sm_operation ctx opts GetSession closure c) = c"
    by (simp add: sm_operation_def setup_sm_def client_retry_call)
qed

lemma guarded_by_setup_ecsI:
  assumes "\<And>g c. operation g c = ecs_operation ctx opts g closure c"
  shows "guarded_by_setup_ecs operation"
proof -
  have "operation = (\<lambda>g. ecs_operation ctx opts g closure)"
    using assms by (intro ext) simp
  then show ?thesis using ecs_operation_guarded [of ctx opts closure] by simp
qed

lemma guarded_by_setup_smI:
  assumes "\<And>g c. operation g c = sm_operation ctx opts g closure c"
  shows "guarded_by_setup_sm operation"
proof -
  have "operation = (\<lambda>g. sm_operation ctx opts g closure)"
    using assms by (intro ext) simp
  then show ?thesis using sm_operation_guarded [of ctx opts closure] by simp
qed

lemmas ecs_operations =
  RegisterTaskDefinition_def DescribeTaskDefinition_def ListTaskDefinitions_def
  DeregisterTaskDefinition_def RunTask_def DescribeTasks_def ListTasks_def StopTask_def
  TagResource_ecs_def

lemmas sm_operations =
  CreateSecret_def GetSecretValue_def DescribeSecret_def ListSecrets_def UpdateSecretValue_def
  TagResource_sm_def DeleteSecret_def

text \<open>
  C7. For both clients, \<open>setup\<close> on a client that holds a handle returns nil and leaves the
  client, so the handle, as it is: no second handle is made. Every exported operation that
  calls the service is guarded by \<open>setup\<close>: when the session cannot be made it returns the
  wrapped error and makes no remote call, whenever it makes a remote call the client holds a
  handle, and it never replaces a handle. (\<open>Close\<close> calls the service not at all.)
\<close>

theorem session_set_up_once:
  "(ecs c \<noteq> None \<longrightarrow> setup_ecs GetSession c = (None, c))
   \<and> (sm c' \<noteq> None \<longrightarrow> setup_sm GetSession c' = (None, c'))
   \<and> guarded_by_setup_ecs (\<lambda>g. RegisterTaskDefinition K ctx opts g service)
   \<and> guarded_by_setup_ecs (\<lambda>g. DescribeTaskDefinition K ctx opts g service)
   \<and> guarded_by_setup_ecs (\<lambda>g. ListTaskDefinitions K ctx opts g service)
   \<and> guarded_by_setup_ecs (\<lambda>g. DeregisterTaskDefinition K ctx opts g service)
   \<and> guarded_by_setup_ecs (\<lambda>g. RunTask K runInput ctx opts g runService)
   \<and> guarded_by_setup_ecs (\<lambda>g. DescribeTasks K ctx opts g service)
   \<and> guarded_by_setup_ecs (\<lambda>g. ListTasks K ctx opts g service)
   \<and> guarded_by_setup_ecs (\<lambda>g. StopTask K stopInput ctx opts g service)
   \<and> guarded_by_setup_ecs (\<lambda>g. TagResource_ecs K ctx opts g service)
   \<and> guarded_by_setup_sm (\<lambda>g. CreateSecret K ctx opts g service)
   \<and> guarded_by_setup_sm (\<lambda>g. GetSecretValue K ctx opts g service)
   \<and> guarded_by_setup_sm (\<lambda>g. DescribeSecret K ctx opts g service)
   \<and> guarded_by_setup_sm (\<lambda>g. ListSecrets K ctx opts g service)
   \<and> guarded_by_setup_sm (\<lambda>g. UpdateSecretValue K ctx opts g service)
   \<and> guarded_by_setup_sm (\<lambda>g. TagResource_sm K ctx opts g service)
   \<and> guarded_by_setup_sm (\<lambda>g. DeleteSecret K ctx opts g service)"
proof (intro conjI)
  show "ecs c \<noteq> None \<longrightarrow> setup_ecs GetSession c = (None, c)"
    by (simp add: setup_ecs_def)
  show "sm c' \<noteq> None \<longrightarrow> setup_sm GetSession c' = (None, c')"
    by (simp add: setup_sm_def)
  show "guarded_by_setup_ecs (\<lambda>g. RegisterTaskDefinition K ctx opts g service)"
    by (rule guarded_by_setup_ecsI, unfold ecs_operations, rule refl)
  show "guarded_by_setup_ecs (\<lambda>g. DescribeTaskDefinition K ctx opts g service)"
    by (rule guarded_by_setup_ecsI, unfold ecs_operations, rule refl)
  show "guarded_by_setup_ecs (\<lambda>g. ListTaskDefinitions K ctx opts g service)"
    by (rule guarded_by_setup_ecsI, unfold ecs_operations, rule refl)
  show "guarded_by_setup_ecs (\<lambda>g. DeregisterTaskDefinition K ctx opts g service)"
    by (rule guarded_by_setup_ecsI, unfold ecs_operations, rule refl)
  show "guarded_by_setup_ecs (\<lambda>g. RunTask K runInput ctx opts g runService)"
    by (rule guarded_by_setup_ecsI, unfold ecs_operations, rule refl)
  show "guarded_by_setup_ecs (\<lambda>g. DescribeTasks K ctx opts g service)"
    by (rule guarded_by_setup_ecsI, unfold ecs_operations, rule refl)
  show "guarded_by_setup_ecs (\<lambda>g. ListTasks K ctx opts g service)"
    by (rule guarded_by_setup_ecsI, unfold ecs_operations, rule refl)
  show "guarded_by_setup_ecs (\<lambda>g. StopTask K stopInput ctx opts g service)"
    by (rule guarded_by_setup_ecsI, unfold ecs_operations, rule refl)
  show "guarded_by_setup_ecs (\<lambda>g. TagResource_ecs K ctx opts g service)"
    by (rule guarded_by_setup_ecsI, unfold ecs_operations, rule refl)
  show "guarded_by_setup_sm (\<lambda>g. CreateSecret K ctx opts g service)"
    by (rule guarded_by_setup_smI, unfold sm_operations, rule refl)
  show "guarded_by_setup_sm (\<lambda>g. GetSecretValue K ctx opts g service)"
    by (rule guarded_by_setup_smI, unfold sm_operations, rule refl)
  show "guarded_by_setup_sm (\<lambda>g. DescribeSecret K ctx opts g service)"
    by (rule guarded_by_setup_smI, unfold sm_operations, rule refl)
  show "guarded_by_setup_sm (\<lambda>g. ListSecrets K ctx opts g service)"
    by (rule guarded_by_setup_smI, unfold sm_operations, rule refl)
  show "guarded_by_setup_sm (\<lambda>g. UpdateSecretValue K ctx opts g service)"
    by (rule guarded_by_setup_smI, unfold sm_operations, rule refl)
  show "guarded_by_setup_sm (\<lambda>g. TagResource_sm K ctx opts g service)"
    by (rule guarded_by_setup_smI, unfold sm_operations, rule refl)
  show "guarded_by_setup_sm (\<lambda>g. DeleteSecret K ctx opts g service)"
    by (rule guarded_by_setup_smI, unfold sm_operations, rule refl)
qed

theorem session_set_up_once_witness:
  "setup_ecs (Inr ''second'') \<lparr>ecs = Some (ecs_New ''first'')\<rparr>
     = (None, \<lparr>ecs = Some (ecs_New ''first'')\<rparr>)
   \<and> RegisterTaskDefinition aws_sdk_codes (\<lambda>k. False) \<lparr>MaxAttempts = 3\<rparr>
       (Inl (OtherError ''no credentials'')) (\<lambda>k. ((), None)) \<lparr>ecs = (None :: string ecs_handle option)\<rparr>
     = \<lparr>client = \<lparr>ecs = None\<rparr>, attempts = 0, ret_out = None,
        ret_err = Some (Wrapped (Wrapped (OtherError ''no credentials'') ''initializing session'')
                          ''setting up client'')\<rparr>"
proof
  show "setup_ecs (Inr ''second'') \<lparr>ecs = Some (ecs_New ''first'')\<rparr>
     = (None, \<lparr>ecs = Some (ecs_New ''first'')\<rparr>)"
    using session_set_up_once [THEN conjunct1, of "\<lparr>ecs = Some (ecs_New ''first'')\<rparr>" "Inr ''second''"]
    by simp
  have "guarded_by_setup_ecs
          (\<lambda>g. RegisterTaskDefinition aws_sdk_codes (\<lambda>k. False) \<lparr>MaxAttempts = 3\<rparr> g
                  (\<lambda>k. ((), None)) :: string BasicClient \<Rightarrow> (string BasicClient, unit) outcome)"
    by (rule session_set_up_once [THEN conjunct2, THEN conjunct2, THEN conjunct1])
  then have "\<forall>e. ecs \<lparr>ecs = (None :: string ecs_handle option)\<rparr> = None
        \<and> (Inl (OtherError ''no credentials'') :: error + string) = Inl e \<longrightarrow>
      RegisterTaskDefinition aws_sdk_codes (\<lambda>k. False) \<lparr>MaxAttempts = 3\<rparr>
       (Inl (OtherError ''no credentials'')) (\<lambda>k. ((), None)) \<lparr>ecs = (None :: string ecs_handle option)\<rparr>
     = \<lparr>client = \<lparr>ecs = None\<rparr>, attempts = 0, ret_out = None,
        ret_err = Some (Wrapped (Wrapped e ''initializing session'') ''setting up client'')\<rparr>"
    unfolding guarded_by_setup_ecs_def by blast
  then show "RegisterTaskDefinition aws_sdk_codes (\<lambda>k. False) \<lparr>MaxAttempts = 3\<rparr>
       (Inl (OtherError ''no credentials'')) (\<lambda>k. ((), None)) \<lparr>ecs = (None :: string ecs_handle option)\<rparr>
     = \<lparr>client = \<lparr>ecs = None\<rparr>, attempts = 0, ret_out = None,
        ret_err = Some (Wrapped (Wrapped (OtherError ''no credentials'') ''initializing session'')
                          ''setting up client'')\<rparr>"
    by simp
qed

end
